theory Spec2Isabelle
  imports Complex_Main
begin

section \<open>JavaScript values\<close>

text \<open>
  The refresh handler of \<^verbatim>\<open>server.js\<close> works on whatever the two external APIs
  return, so the catalog entries and the rate table are modelled as untyped JavaScript
  values. A parsed JSON document uses every constructor but \<open>JUndefined\<close> and \<open>NaN\<close>;
  those two arise inside the handler (a missing property, \<^verbatim>\<open>Number("x")\<close>).

  Numbers are exact rationals: the rounding of IEEE doubles and the infinities are not
  modelled. Strings are lists of 8-bit characters; case mapping and white space are
  those of ASCII, other characters are left as they are. An object is the association
  list of its own properties, the first binding of a key being the property.
\<close>

datatype jsnum = NaN | Fin rat

datatype jsval =
    JUndefined
  | JNull
  | JBool bool
  | JNum jsnum
  | JStr string
  | JArr "jsval list"
  | JObj "(string \<times> jsval) list"

datatype error =
    Api string
  | AbortError
  | HttpError nat
  | FetchError
  | SyntaxError
  | TypeError
  | DbError

text \<open>What the external world answers to one fetch: the timer aborted it, the network
  failed, or a response came with a status and a body that parses as JSON or does not.\<close>

datatype fetch_outcome = Aborted | Unreachable | Responded nat "jsval option"

text \<open>
  Everything one refresh cycle reads from outside the handler: the runtime's number
  conversions, the successive results of \<^verbatim>\<open>Math.random()\<close> and \<^verbatim>\<open>new Date()\<close>, the
  outcome of the two fetches (and which rejection \<^verbatim>\<open>Promise.all\<close> sees first when both
  fail), and whether each storage operation succeeds. \<open>db_execute E k\<close> is the outcome of
  the \<open>k\<close>-th statement executed on the cycle's connection.
\<close>

record env =
  NumberToString :: "rat \<Rightarrow> string"
  StringToNumber :: "string \<Rightarrow> jsnum"
  Math_random :: "nat \<Rightarrow> rat"
  Date_now :: "nat \<Rightarrow> nat"
  fetch_countries :: fetch_outcome
  fetch_rates :: fetch_outcome
  rates_rejects_first :: bool
  db_getConnection :: bool
  db_beginTransaction :: bool
  db_execute :: "nat \<Rightarrow> bool"
  db_commit :: bool
  db_count_query :: bool
  db_top_query :: bool
  image_written :: bool

subsection \<open>Truthiness, null checks, property access\<close>

fun truthy :: "jsval \<Rightarrow> bool" where
  "truthy JUndefined = False"
| "truthy JNull = False"
| "truthy (JBool b) = b"
| "truthy (JNum NaN) = False"
| "truthy (JNum (Fin r)) = (r \<noteq> 0)"
| "truthy (JStr s) = (s \<noteq> [])"
| "truthy (JArr xs) = True"
| "truthy (JObj kvs) = True"

text \<open>\<^verbatim>\<open>v == null\<close>\<close>

definition nullish :: "jsval \<Rightarrow> bool" where
  "nullish v = (v = JNull \<or> v = JUndefined)"

text \<open>\<^verbatim>\<open>v || null\<close>\<close>

definition or_null :: "jsval \<Rightarrow> jsval" where
  "or_null v = (if truthy v then v else JNull)"

fun isArray :: "jsval \<Rightarrow> bool" where
  "isArray (JArr xs) = True"
| "isArray v = False"

text \<open>The canonical decimal numeral of an array index.\<close>

fun dec :: "nat \<Rightarrow> string" where
  "dec n = (if n < 10 then [char_of (48 + n)] else dec (n div 10) @ [char_of (48 + n mod 10)])"

declare dec.simps [simp del]

text \<open>The own properties of a value, as \<^verbatim>\<open>Object.prototype.hasOwnProperty\<close> sees them:
  the keys of an object, the indices and the length of an array or a string.\<close>

fun own_property :: "jsval \<Rightarrow> string \<Rightarrow> jsval option" where
  "own_property (JObj kvs) k = map_of kvs k"
| "own_property (JArr xs) k =
     (if k = ''length'' then Some (JNum (Fin (of_nat (length xs))))
      else map_option (\<lambda>i. xs ! i) (find (\<lambda>i. dec i = k) [0..<length xs]))"
| "own_property (JStr s) k =
     (if k = ''length'' then Some (JNum (Fin (of_nat (length s))))
      else map_option (\<lambda>i. JStr [s ! i]) (find (\<lambda>i. dec i = k) [0..<length s]))"
| "own_property v k = None"

text \<open>
  \<^verbatim>\<open>v.k\<close> for a value that is neither null nor undefined (the callers check that
  before they read). The handler reads the keys name, population, capital, region, flag,
  currencies, code, rates and conversion_rates only, none of which is inherited from a
  prototype, so a property that is not an own property is undefined.
\<close>

definition get :: "jsval \<Rightarrow> string \<Rightarrow> jsval" where
  "get v k = (case own_property v k of Some x \<Rightarrow> x | None \<Rightarrow> JUndefined)"

text \<open>\<^verbatim>\<open>Object.prototype.hasOwnProperty.call(v, k)\<close>, which throws on null and undefined.\<close>

definition hasOwnProperty :: "jsval \<Rightarrow> string \<Rightarrow> error + bool" where
  "hasOwnProperty v k = (if nullish v then Inl TypeError else Inr (own_property v k \<noteq> None))"

subsection \<open>Strings\<close>

definition is_ws :: "char \<Rightarrow> bool" where
  "is_ws c = (c \<in> set [CHR 0x09, CHR 0x0A, CHR 0x0B, CHR 0x0C, CHR 0x0D, CHR '' ''])"

definition trim :: "string \<Rightarrow> string" where
  "trim s = rev (dropWhile is_ws (rev (dropWhile is_ws s)))"

definition lower_char :: "char \<Rightarrow> char" where
  "lower_char c =
     (let n = of_char c :: nat in if 65 \<le> n \<and> n \<le> 90 then char_of (n + 32) else c)"

definition upper_char :: "char \<Rightarrow> char" where
  "upper_char c =
     (let n = of_char c :: nat in if 97 \<le> n \<and> n \<le> 122 then char_of (n - 32) else c)"

definition toLowerCase :: "string \<Rightarrow> string" where
  "toLowerCase s = map lower_char s"

definition toUpperCase :: "string \<Rightarrow> string" where
  "toUpperCase s = map upper_char s"

fun join :: "string \<Rightarrow> string list \<Rightarrow> string" where
  "join sep [] = []"
| "join sep [x] = x"
| "join sep (x # y # ys) = x @ sep @ join sep (y # ys)"

text \<open>\<^verbatim>\<open>String(v)\<close>: an array is its elements joined by commas, null elements being
  empty; the decimal form of a number is the runtime's.\<close>

fun js_String :: "env \<Rightarrow> jsval \<Rightarrow> string" where
  "js_String E JUndefined = ''undefined''"
| "js_String E JNull = ''null''"
| "js_String E (JBool b) = (if b then ''true'' else ''false'')"
| "js_String E (JNum NaN) = ''NaN''"
| "js_String E (JNum (Fin r)) = NumberToString E r"
| "js_String E (JStr s) = s"
| "js_String E (JArr xs) = join '','' (map (\<lambda>x. if nullish x then [] else js_String E x) xs)"
| "js_String E (JObj kvs) = ''[object Object]''"

subsection \<open>Numbers\<close>

text \<open>\<^verbatim>\<open>Number(v)\<close>. A string of white space only is zero; any other string is read by
  the runtime. An array is converted through its string, an object is not a number.\<close>

fun js_Number :: "env \<Rightarrow> jsval \<Rightarrow> jsnum" where
  "js_Number E JUndefined = NaN"
| "js_Number E JNull = Fin 0"
| "js_Number E (JBool b) = Fin (if b then 1 else 0)"
| "js_Number E (JNum n) = n"
| "js_Number E (JStr s) = (if list_all is_ws s then Fin 0 else StringToNumber E s)"
| "js_Number E (JArr xs) =
     (let s = js_String E (JArr xs) in if list_all is_ws s then Fin 0 else StringToNumber E s)"
| "js_Number E (JObj kvs) = NaN"

fun js_mul :: "jsnum \<Rightarrow> jsnum \<Rightarrow> jsnum" where
  "js_mul (Fin a) (Fin b) = Fin (a * b)"
| "js_mul x y = NaN"

text \<open>Division by zero is not a rational; the one caller excludes a zero divisor.\<close>

fun js_div :: "jsnum \<Rightarrow> jsnum \<Rightarrow> jsnum" where
  "js_div (Fin a) (Fin b) = (if b = 0 then NaN else Fin (a / b))"
| "js_div x y = NaN"

section \<open>The derivation stage\<close>

text \<open>\<^verbatim>\<open>normalizeName\<close>: \<^verbatim>\<open>(name || "").trim().toLowerCase()\<close>. A truthy value that is not
  a string has no \<^verbatim>\<open>trim\<close> method, and the call throws.\<close>

definition normalizeName :: "jsval \<Rightarrow> error + string" where
  "normalizeName nm =
     (case (if truthy nm then nm else JStr []) of
        JStr s \<Rightarrow> Inr (toLowerCase (trim s))
      | _ \<Rightarrow> Inl TypeError)"

text \<open>\<^verbatim>\<open>randomMultiplier\<close>, from the value \<open>u\<close> that \<^verbatim>\<open>Math.random()\<close> returned.\<close>

definition randomMultiplier :: "rat \<Rightarrow> int" where
  "randomMultiplier u = \<lfloor>u * 1001\<rfloor> + 1000"

text \<open>
  \<^verbatim>\<open>computeEstimatedGDP\<close> of the first implementation. \<open>d\<close> counts the calls of
  \<^verbatim>\<open>Math.random()\<close> so far; the function returns the count after it.
\<close>

definition computeEstimatedGDP1 :: "env \<Rightarrow> jsval \<Rightarrow> jsval \<Rightarrow> nat \<Rightarrow> jsval \<times> nat" where
  "computeEstimatedGDP1 E population exchangeRate d =
     (if \<not> truthy population then (JNull, d)
      else if \<not> truthy exchangeRate then (JNull, d)
      else if js_Number E exchangeRate = Fin 0 then (JNull, d)
      else
        let multiplier = randomMultiplier (Math_random E d)
        in (JNum (js_div (js_mul (js_Number E population) (Fin (of_int multiplier)))
                    (js_Number E exchangeRate)), Suc d))"

text \<open>\<^verbatim>\<open>computeEstimatedGDP\<close> of the second implementation.\<close>

definition computeEstimatedGDP2 :: "env \<Rightarrow> jsval \<Rightarrow> jsval \<Rightarrow> nat \<Rightarrow> jsval \<times> nat" where
  "computeEstimatedGDP2 E population exchangeRate d =
     (if nullish population then (JNull, d)
      else if nullish exchangeRate then (JNull, d)
      else if js_Number E exchangeRate = Fin 0 then (JNull, d)
      else
        let multiplier = randomMultiplier (Math_random E d)
        in (JNum (js_div (js_mul (js_Number E population) (Fin (of_int multiplier)))
                    (js_Number E exchangeRate)), Suc d))"

text \<open>
  The code of the first listed currency, when the entry has one:
  \<^verbatim>\<open>Array.isArray(c.currencies) && c.currencies.length > 0 && c.currencies[0] &&
  c.currencies[0].code\<close>, then \<^verbatim>\<open>String(code).trim().toUpperCase()\<close>.
\<close>

definition first_code :: "env \<Rightarrow> jsval \<Rightarrow> string option" where
  "first_code E c =
     (case get c ''currencies'' of
        JArr (x # xs) \<Rightarrow>
          (if truthy x \<and> truthy (get x ''code'')
           then Some (toUpperCase (trim (js_String E (get x ''code''))))
           else None)
      | _ \<Rightarrow> None)"

text \<open>The skip check of both loops: \<^verbatim>\<open>!name || population == null\<close>, after
  \<^verbatim>\<open>name = c.name || null\<close> and \<^verbatim>\<open>population = c.population != null ? c.population : null\<close>.\<close>

definition entry_name :: "jsval \<Rightarrow> jsval" where
  "entry_name c = or_null (get c ''name'')"

definition entry_population :: "jsval \<Rightarrow> jsval" where
  "entry_population c = (if nullish (get c ''population'') then JNull else get c ''population'')"

text \<open>The test before \<^verbatim>\<open>continue\<close>.\<close>

definition skip_entry :: "jsval \<Rightarrow> bool" where
  "skip_entry c = (\<not> truthy (entry_name c) \<or> nullish (entry_population c))"

text \<open>The currency code that each implementation stores: the first writes N/A for an
  entry without a code, the second null.\<close>

definition currency_code1 :: "env \<Rightarrow> jsval \<Rightarrow> string" where
  "currency_code1 E c = (case first_code E c of Some s \<Rightarrow> s | None \<Rightarrow> ''N/A'')"

definition currency_code2 :: "env \<Rightarrow> jsval \<Rightarrow> jsval" where
  "currency_code2 E c = (case first_code E c of Some s \<Rightarrow> JStr s | None \<Rightarrow> JNull)"

text \<open>
  The exchange rate and the estimated GDP of the first implementation, with the count of
  draws: both start as null and 0, and are set from the rate table when the code is not
  N/A and is an own property of the table.
\<close>

definition resolve1 ::
  "env \<Rightarrow> jsval \<Rightarrow> string \<Rightarrow> jsval \<Rightarrow> nat \<Rightarrow> error + (jsval \<times> jsval \<times> nat)" where
  "resolve1 E rates currency_code population d =
     (if currency_code = ''N/A'' then Inr (JNull, JNum (Fin 0), d)
      else
        (case hasOwnProperty rates currency_code of
           Inl e \<Rightarrow> Inl e
         | Inr found \<Rightarrow>
             (if found
              then Inr (get rates currency_code,
                        computeEstimatedGDP1 E population (get rates currency_code) d)
              else Inr (JNull, JNum (Fin 0), d))))"

text \<open>
  The same of the second implementation: null and 0 for a falsy code, the rate and the
  computed estimate for a code that is an own property of the table, null and null for
  any other code. The code is a property key, so it is read through its string.
\<close>

definition resolve2 ::
  "env \<Rightarrow> jsval \<Rightarrow> jsval \<Rightarrow> jsval \<Rightarrow> nat \<Rightarrow> error + (jsval \<times> jsval \<times> nat)" where
  "resolve2 E rates currency_code population d =
     (if \<not> truthy currency_code then Inr (JNull, JNum (Fin 0), d)
      else
        (case hasOwnProperty rates (js_String E currency_code) of
           Inl e \<Rightarrow> Inl e
         | Inr found \<Rightarrow>
             (if found
              then Inr (get rates (js_String E currency_code),
                        computeEstimatedGDP2 E population
                          (get rates (js_String E currency_code)) d)
              else Inr (JNull, JNull, d))))"

text \<open>The row that one upsert statement writes: the ten bound parameters.\<close>

record country_row =
  name :: jsval
  normalized_name :: string
  capital :: jsval
  region :: jsval
  population :: jsval
  currency_code :: jsval
  exchange_rate :: jsval
  estimated_gdp :: jsval
  flag_url :: jsval
  last_refreshed_at :: nat

text \<open>
  One pass of the loop body of the first implementation, up to the parameters of the
  upsert: an exception, a skipped entry (\<open>None\<close>) or the row, with the count of random
  draws. \<open>t\<close> is the value of \<^verbatim>\<open>new Date()\<close>. Reading \<^verbatim>\<open>c.name\<close> throws when the entry
  is null.
\<close>

definition derive1 :: "env \<Rightarrow> jsval \<Rightarrow> jsval \<Rightarrow> nat \<Rightarrow> nat \<Rightarrow> error + (country_row option \<times> nat)" where
  "derive1 E rates c d t =
     (if nullish c then Inl TypeError
      else if skip_entry c then Inr (None, d)
      else
        (case resolve1 E rates (currency_code1 E c) (entry_population c) d of
           Inl e \<Rightarrow> Inl e
         | Inr (xr, gdp, d') \<Rightarrow>
             (case normalizeName (entry_name c) of
                Inl e \<Rightarrow> Inl e
              | Inr normalized \<Rightarrow>
                  Inr (Some \<lparr>name = entry_name c, normalized_name = normalized,
                             capital = or_null (get c ''capital''),
                             region = or_null (get c ''region''),
                             population = entry_population c,
                             currency_code = JStr (currency_code1 E c),
                             exchange_rate = xr,
                             estimated_gdp = gdp,
                             flag_url = or_null (get c ''flag''),
                             last_refreshed_at = t\<rparr>, d'))))"

text \<open>The same pass of the second implementation.\<close>

definition derive2 :: "env \<Rightarrow> jsval \<Rightarrow> jsval \<Rightarrow> nat \<Rightarrow> nat \<Rightarrow> error + (country_row option \<times> nat)" where
  "derive2 E rates c d t =
     (if nullish c then Inl TypeError
      else if skip_entry c then Inr (None, d)
      else
        (case resolve2 E rates (currency_code2 E c) (entry_population c) d of
           Inl e \<Rightarrow> Inl e
         | Inr (xr, gdp, d') \<Rightarrow>
             (case normalizeName (entry_name c) of
                Inl e \<Rightarrow> Inl e
              | Inr normalized \<Rightarrow>
                  Inr (Some \<lparr>name = entry_name c, normalized_name = normalized,
                             capital = or_null (get c ''capital''),
                             region = or_null (get c ''region''),
                             population = entry_population c,
                             currency_code = currency_code2 E c,
                             exchange_rate = xr,
                             estimated_gdp = gdp,
                             flag_url = or_null (get c ''flag''),
                             last_refreshed_at = t\<rparr>, d'))))"

text \<open>The rate table of a cycle: \<^verbatim>\<open>ratesData.rates\<close> or \<^verbatim>\<open>ratesData.conversion_rates\<close>,
  whichever is truthy first, and the empty object when neither is.\<close>

definition rates_or :: "jsval \<Rightarrow> jsval" where
  "rates_or ratesData =
     (if truthy (get ratesData ''rates'') then get ratesData ''rates''
      else get ratesData ''conversion_rates'')"

definition rates_of :: "jsval \<Rightarrow> jsval" where
  "rates_of ratesData =
     (if truthy ratesData \<and> truthy (rates_or ratesData) then rates_or ratesData else JObj [])"

section \<open>The store\<close>

text \<open>
  The relational store behind \<^verbatim>\<open>pool\<close>: the table \<open>countries\<close>, one row per upsert
  that found no duplicate, and the table \<open>meta\<close>, one value per key. The statements are
  those of the source. A transaction works on a copy of the store, which the commit
  publishes to every reader and a rollback discards.
\<close>

record db =
  countries :: "country_row list"
  meta :: "(string \<times> nat) list"

text \<open>
  Modelled from the spec: the unique keys of the table \<open>countries\<close>. The module \<^verbatim>\<open>db.js\<close>
  and the schema are not part of the source; by the data model of the specification
  \<open>name\<close> is the unique business key and \<open>normalized_name\<close> is unique. A new row is a
  duplicate of a stored one when it has its name or its normalized name, strings being
  compared exactly.
\<close>

definition duplicate_key :: "country_row \<Rightarrow> country_row \<Rightarrow> bool" where
  "duplicate_key x r = (name x = name r \<or> normalized_name x = normalized_name r)"

text \<open>The assignments after \<^verbatim>\<open>ON DUPLICATE KEY UPDATE\<close>: every column of the new row but
  \<open>normalized_name\<close>.\<close>

definition on_duplicate_key_update :: "country_row \<Rightarrow> country_row \<Rightarrow> country_row" where
  "on_duplicate_key_update x r =
     x\<lparr>name := name r, capital := capital r, region := region r,
       population := population r, currency_code := currency_code r,
       exchange_rate := exchange_rate r, estimated_gdp := estimated_gdp r,
       flag_url := flag_url r, last_refreshed_at := last_refreshed_at r\<rparr>"

fun upsert :: "country_row \<Rightarrow> country_row list \<Rightarrow> country_row list" where
  "upsert r [] = [r]"
| "upsert r (x # xs) =
     (if duplicate_key x r then on_duplicate_key_update x r # xs else x # upsert r xs)"

fun meta_upsert :: "string \<Rightarrow> nat \<Rightarrow> (string \<times> nat) list \<Rightarrow> (string \<times> nat) list" where
  "meta_upsert k v [] = [(k, v)]"
| "meta_upsert k v (x # xs) = (if fst x = k then (k, v) # xs else x # meta_upsert k v xs)"

text \<open>\<^verbatim>\<open>SELECT name, estimated_gdp FROM countries WHERE estimated_gdp IS NOT NULL ORDER BY
  estimated_gdp DESC LIMIT 5\<close>; rows of equal value keep the order of the table.\<close>

definition gdp_value :: "country_row \<Rightarrow> rat" where
  "gdp_value r = (case estimated_gdp r of JNum (Fin q) \<Rightarrow> q | _ \<Rightarrow> 0)"

definition top5_query :: "country_row list \<Rightarrow> (jsval \<times> jsval) list" where
  "top5_query tbl =
     map (\<lambda>r. (name r, estimated_gdp r))
       (take 5 (sort_key (\<lambda>r. - gdp_value r) (filter (\<lambda>r. estimated_gdp r \<noteq> JNull) tbl)))"

section \<open>The refresh handler\<close>

record summary =
  totalCount :: nat
  top5 :: "(jsval \<times> jsval) list"
  timestampIso :: nat

text \<open>The state of the server process: the single-flight flag, the committed store and
  the cached summary image. A timestamp stands for its ISO-8601 string.\<close>

record server =
  refreshInProgress :: bool
  store :: db
  image :: "summary option"

datatype body =
    ErrorBody string "string option"
  | RefreshBody string nat nat
  | CountryBody country_row
  | MessageBody string

datatype response = Response (status: nat) (body: body)

definition jsonError :: "nat \<Rightarrow> string \<Rightarrow> string option \<Rightarrow> response" where
  "jsonError st message details = Response st (ErrorBody message details)"

text \<open>\<^verbatim>\<open>fetchWithTimeout\<close>: the abort of the timer, a network failure, a status outside
  200..299 and a body that does not parse all reject.\<close>

fun fetchWithTimeout :: "fetch_outcome \<Rightarrow> error + jsval" where
  "fetchWithTimeout Aborted = Inl AbortError"
| "fetchWithTimeout Unreachable = Inl FetchError"
| "fetchWithTimeout (Responded st b) =
     (if 200 \<le> st \<and> st \<le> 299
      then (case b of None \<Rightarrow> Inl SyntaxError | Some v \<Rightarrow> Inr v)
      else Inl (HttpError st))"

text \<open>
  The fetch stage, the same text in both implementations: each promise replaces its
  rejection by an object naming its API, \<^verbatim>\<open>Promise.all\<close> rejects with the rejection that
  comes first, and a countries response that is not an array is thrown as a failure of
  the Countries API.
\<close>

definition fetch_stage :: "env \<Rightarrow> error + (jsval \<times> jsval)" where
  "fetch_stage E =
     (case fetchWithTimeout (fetch_countries E) of
        Inl e \<Rightarrow>
          (case fetchWithTimeout (fetch_rates E) of
             Inl e' \<Rightarrow>
               Inl (Api (if rates_rejects_first E then ''Exchange Rates API'' else ''Countries API''))
           | Inr ratesData \<Rightarrow> Inl (Api ''Countries API''))
      | Inr countriesData \<Rightarrow>
          (case fetchWithTimeout (fetch_rates E) of
             Inl e' \<Rightarrow> Inl (Api ''Exchange Rates API'')
           | Inr ratesData \<Rightarrow>
               (if isArray countriesData then Inr (countriesData, ratesData)
                else Inl (Api ''Countries API''))))"

text \<open>The response of the catch clause of the first handler and of the outer catch
  clause of the second.\<close>

fun refresh_catch :: "error \<Rightarrow> response" where
  "refresh_catch (Api a) =
     jsonError 503 ''External data source unavailable'' (Some (''Could not fetch data from '' @ a))"
| "refresh_catch AbortError =
     jsonError 503 ''External data source unavailable'' (Some ''Fetch timed out'')"
| "refresh_catch err = jsonError 500 ''Internal server error'' None"

fun elements :: "jsval \<Rightarrow> jsval list" where
  "elements (JArr xs) = xs"
| "elements v = []"

text \<open>
  The loop over the catalog. \<open>d\<close> counts the random draws and \<open>k\<close> the statements executed
  so far, which is also the number of clock readings; \<open>tbl\<close> is the transaction's copy of
  the table. A throw of the body or a failed statement leaves the loop.
\<close>

fun upsert_loop1 ::
  "env \<Rightarrow> jsval \<Rightarrow> jsval list \<Rightarrow> nat \<Rightarrow> nat \<Rightarrow> country_row list
    \<Rightarrow> error + (nat \<times> nat \<times> country_row list)" where
  "upsert_loop1 E rates [] d k tbl = Inr (d, k, tbl)"
| "upsert_loop1 E rates (c # cs) d k tbl =
     (case derive1 E rates c d (Date_now E k) of
        Inl e \<Rightarrow> Inl e
      | Inr (None, d') \<Rightarrow> upsert_loop1 E rates cs d' k tbl
      | Inr (Some r, d') \<Rightarrow>
          (if db_execute E k then upsert_loop1 E rates cs d' (Suc k) (upsert r tbl)
           else Inl DbError))"

fun upsert_loop2 ::
  "env \<Rightarrow> jsval \<Rightarrow> jsval list \<Rightarrow> nat \<Rightarrow> nat \<Rightarrow> country_row list
    \<Rightarrow> error + (nat \<times> nat \<times> country_row list)" where
  "upsert_loop2 E rates [] d k tbl = Inr (d, k, tbl)"
| "upsert_loop2 E rates (c # cs) d k tbl =
     (case derive2 E rates c d (Date_now E k) of
        Inl e \<Rightarrow> Inl e
      | Inr (None, d') \<Rightarrow> upsert_loop2 E rates cs d' k tbl
      | Inr (Some r, d') \<Rightarrow>
          (if db_execute E k then upsert_loop2 E rates cs d' (Suc k) (upsert r tbl)
           else Inl DbError))"

text \<open>
  From \<^verbatim>\<open>beginTransaction\<close> to \<^verbatim>\<open>commit\<close>: the loop, the metadata statement and the
  commit. The result is the store that the commit publishes, with the timestamp written.
\<close>

definition transaction1 :: "env \<Rightarrow> jsval \<Rightarrow> jsval list \<Rightarrow> db \<Rightarrow> error + (db \<times> nat)" where
  "transaction1 E rates cs D =
     (if db_beginTransaction E then
        (case upsert_loop1 E rates cs 0 0 (countries D) of
           Inl e \<Rightarrow> Inl e
         | Inr (d, k, tbl) \<Rightarrow>
             (if db_execute E k then
                (if db_commit E
                 then Inr (\<lparr>countries = tbl,
                             meta = meta_upsert ''last_refreshed_at'' (Date_now E k) (meta D)\<rparr>,
                           Date_now E k)
                 else Inl DbError)
              else Inl DbError))
      else Inl DbError)"

definition transaction2 :: "env \<Rightarrow> jsval \<Rightarrow> jsval list \<Rightarrow> db \<Rightarrow> error + (db \<times> nat)" where
  "transaction2 E rates cs D =
     (if db_beginTransaction E then
        (case upsert_loop2 E rates cs 0 0 (countries D) of
           Inl e \<Rightarrow> Inl e
         | Inr (d, k, tbl) \<Rightarrow>
             (if db_execute E k then
                (if db_commit E
                 then Inr (\<lparr>countries = tbl,
                             meta = meta_upsert ''last_refreshed_at'' (Date_now E k) (meta D)\<rparr>,
                           Date_now E k)
                 else Inl DbError)
              else Inl DbError))
      else Inl DbError)"

text \<open>After the commit: the two aggregate queries, the rendering of the image (whose
  failure is swallowed) and the response.\<close>

definition after_commit :: "env \<Rightarrow> server \<Rightarrow> db \<Rightarrow> nat \<Rightarrow> server \<times> response" where
  "after_commit E S D lastRef =
     (if db_count_query E \<and> db_top_query E then
        (S\<lparr>refreshInProgress := False, store := D,
            image := (if image_written E
                      then Some \<lparr>totalCount = length (countries D),
                                  top5 = top5_query (countries D), timestampIso = lastRef\<rparr>
                      else image S)\<rparr>,
         Response 200 (RefreshBody ''Refresh successful'' (length (countries D)) lastRef))
      else (S\<lparr>refreshInProgress := False, store := D\<rparr>,
            jsonError 500 ''Internal server error'' None))"

text \<open>
  The first handler after it has set the flag. Every error is caught by the one catch
  clause, which clears the flag, rolls back when a connection was taken and answers by
  \<open>refresh_catch\<close>.
\<close>

definition refresh_run1 :: "env \<Rightarrow> server \<Rightarrow> server \<times> response" where
  "refresh_run1 E S =
     (case fetch_stage E of
        Inl err \<Rightarrow> (S\<lparr>refreshInProgress := False\<rparr>, refresh_catch err)
      | Inr (countriesData, ratesData) \<Rightarrow>
          (if db_getConnection E then
             (case transaction1 E (rates_of ratesData) (elements countriesData) (store S) of
                Inl err \<Rightarrow> (S\<lparr>refreshInProgress := False\<rparr>, refresh_catch err)
              | Inr (D, lastRef) \<Rightarrow> after_commit E S D lastRef)
           else (S\<lparr>refreshInProgress := False\<rparr>, refresh_catch DbError)))"

text \<open>
  The second handler after it has set the flag: the inner catch clause rolls back and
  answers 500 whatever was thrown, the outer one answers by \<open>refresh_catch\<close>.
\<close>

definition refresh_run2 :: "env \<Rightarrow> server \<Rightarrow> server \<times> response" where
  "refresh_run2 E S =
     (case fetch_stage E of
        Inl err \<Rightarrow> (S\<lparr>refreshInProgress := False\<rparr>, refresh_catch err)
      | Inr (countriesResp, ratesResp) \<Rightarrow>
          (if db_getConnection E then
             (case transaction2 E (rates_of ratesResp) (elements countriesResp) (store S) of
                Inl dbErr \<Rightarrow>
                  (S\<lparr>refreshInProgress := False\<rparr>, jsonError 500 ''Internal server error'' None)
              | Inr (D, lastRef) \<Rightarrow> after_commit E S D lastRef)
           else (S\<lparr>refreshInProgress := False\<rparr>, refresh_catch DbError)))"

text \<open>The entry of both handlers, run before the first \<^verbatim>\<open>await\<close>: a request that finds
  the flag set is answered 409, any other sets the flag.\<close>

definition refresh_enter :: "server \<Rightarrow> response + server" where
  "refresh_enter S =
     (if refreshInProgress S then Inl (jsonError 409 ''Refresh already in progress'' None)
      else Inr (S\<lparr>refreshInProgress := True\<rparr>))"

definition refresh1 :: "env \<Rightarrow> server \<Rightarrow> server \<times> response" where
  "refresh1 E S = (case refresh_enter S of Inl r \<Rightarrow> (S, r) | Inr S' \<Rightarrow> refresh_run1 E S')"

definition refresh2 :: "env \<Rightarrow> server \<Rightarrow> server \<times> response" where
  "refresh2 E S = (case refresh_enter S of Inl r \<Rightarrow> (S, r) | Inr S' \<Rightarrow> refresh_run2 E S')"

section \<open>Reading and deleting by name\<close>



section \<open>Requests in flight\<close>


section \<open>Predicates of the specification\<close>

text \<open>An entry qualifies, in the words of the specification, when its name is a
  non-empty string and its population is present and not null.\<close>

definition qualifies :: "jsval \<Rightarrow> bool" where
  "qualifies c =
     ((case get c ''name'' of JStr s \<Rightarrow> s \<noteq> [] | _ \<Rightarrow> False) \<and>
      get c ''population'' \<noteq> JUndefined \<and> get c ''population'' \<noteq> JNull)"

text \<open>An entry on which the loop body runs \<^verbatim>\<open>continue\<close>.\<close>

definition skipped :: "jsval \<Rightarrow> bool" where
  "skipped c = (if nullish c then False else skip_entry c)"

text \<open>A row whose \<open>normalized_name\<close> is its name in lower case, trimmed; a store all of
  whose rows are so, no two under the same normalized name.\<close>

definition normalized_ok :: "country_row \<Rightarrow> bool" where
  "normalized_ok r =
     (case name r of JStr s \<Rightarrow> normalized_name r = trim (toLowerCase s) | _ \<Rightarrow> False)"

definition store_ok :: "db \<Rightarrow> bool" where
  "store_ok D =
     (list_all normalized_ok (countries D) \<and> distinct (map normalized_name (countries D)))"

text \<open>A fetch of the catalog has failed when it rejects or its body is not an array; a
  fetch of the rates when it rejects.\<close>

definition countries_failed :: "env \<Rightarrow> bool" where
  "countries_failed E =
     (case fetchWithTimeout (fetch_countries E) of Inl e \<Rightarrow> True | Inr v \<Rightarrow> \<not> isArray v)"

definition rates_failed :: "env \<Rightarrow> bool" where
  "rates_failed E = (case fetchWithTimeout (fetch_rates E) of Inl e \<Rightarrow> True | Inr v \<Rightarrow> False)"



section \<open>Sample data\<close>

text \<open>A cycle in which both APIs answer 200 with the given bodies, every storage operation
  succeeds, every random draw is one half and the clock reads 1000, 1001, ...\<close>

definition cycle_env :: "jsval \<Rightarrow> jsval \<Rightarrow> env" where
  "cycle_env countriesBody ratesBody =
     \<lparr>NumberToString = (\<lambda>r. ''0''), StringToNumber = (\<lambda>s. NaN),
      Math_random = (\<lambda>i. 1 / 2), Date_now = (\<lambda>i. 1000 + i),
      fetch_countries = Responded 200 (Some countriesBody),
      fetch_rates = Responded 200 (Some ratesBody),
      rates_rejects_first = False,
      db_getConnection = True, db_beginTransaction = True, db_execute = (\<lambda>k. True),
      db_commit = True, db_count_query = True, db_top_query = True, image_written = True\<rparr>"

definition nigeria :: jsval where
  "nigeria = JObj [(''name'', JStr ''Nigeria''), (''population'', JNum (Fin 206000000)),
                   (''currencies'', JArr [JObj [(''code'', JStr ''ngn'')]])]"

text \<open>An uninhabited territory: population zero, a currency with a rate.\<close>

definition bouvet :: jsval where
  "bouvet = JObj [(''name'', JStr ''Bouvet Island''), (''population'', JNum (Fin 0)),
                  (''currencies'', JArr [JObj [(''code'', JStr ''NOK'')]])]"

text \<open>A country whose currency the rate table does not list.\<close>

definition atlantis :: jsval where
  "atlantis = JObj [(''name'', JStr ''Atlantis''), (''population'', JNum (Fin 1000)),
                    (''currencies'', JArr [JObj [(''code'', JStr ''xyz'')]])]"


definition nameless :: jsval where
  "nameless = JObj [(''name'', JStr ''Nowhere'')]"

definition sample_rates :: jsval where
  "sample_rates = JObj [(''rates'', JObj [(''NGN'', JNum (Fin (821 / 2))), (''NOK'', JNum (Fin 10))])]"

definition nigeria_row :: country_row where
  "nigeria_row =
     \<lparr>name = JStr ''Nigeria'', normalized_name = ''nigeria'', capital = JNull, region = JNull,
      population = JNum (Fin 206000000), currency_code = JStr ''NGN'',
      exchange_rate = JNum (Fin (821 / 2)), estimated_gdp = JNum (Fin 500000000),
      flag_url = JNull, last_refreshed_at = 7\<rparr>"

definition one_row_server :: server where
  "one_row_server =
     \<lparr>refreshInProgress = False,
      store = \<lparr>countries = [nigeria_row], meta = [(''last_refreshed_at'', 7)]\<rparr>,
      image = None\<rparr>"

text \<open>A cycle whose second statement fails.\<close>

definition failing_env :: env where
  "failing_env = (cycle_env (JArr [nigeria, atlantis]) sample_rates)\<lparr>db_execute := (\<lambda>k. k \<noteq> 1)\<rparr>"

text \<open>A cycle whose fetch of the rates times out.\<close>

definition timeout_env :: env where
  "timeout_env = (cycle_env (JArr [nigeria]) sample_rates)\<lparr>fetch_rates := Aborted\<rparr>"

text \<open>A cycle whose catalog has one entry, without a population.\<close>

definition skipping_env :: env where
  "skipping_env = cycle_env (JArr [nameless]) sample_rates"


section \<open>Properties of the derivation stage\<close>

subsection \<open>Strings and values\<close>

lemma is_ws_code: "is_ws c \<Longrightarrow> (of_char c :: nat) < 33"
  by (auto simp: is_ws_def)




lemma dropWhile_ws_append: "list_all is_ws w \<Longrightarrow> dropWhile is_ws (w @ u) = dropWhile is_ws u"
  by (induction w) auto

lemma trim_pad:
  assumes a: "list_all is_ws w1" and b: "list_all is_ws w2"
  shows "trim (w1 @ u @ w2) = trim u"
proof -
  have "dropWhile is_ws (rev (dropWhile is_ws (w1 @ u @ w2))) =
        dropWhile is_ws (rev (dropWhile is_ws u))"
  proof (cases "list_all is_ws u")
    case True
    have 1: "dropWhile is_ws (w1 @ u @ w2) = []"
      using a b True by (simp add: list_all_iff dropWhile_eq_Nil_conv)
    have 2: "dropWhile is_ws u = []"
      using True by (simp add: list_all_iff dropWhile_eq_Nil_conv)
    show ?thesis by (simp only: 1 2)
  next
    case False
    then have "\<exists>x\<in>set u. \<not> is_ws x" by (simp add: list_all_iff)
    then obtain x where x: "x \<in> set u" "\<not> is_ws x" by blast
    then have 1: "dropWhile is_ws (u @ w2) = dropWhile is_ws u @ w2"
      by (rule dropWhile_append1)
    have 2: "dropWhile is_ws u \<noteq> []"
      using x by (auto simp: dropWhile_eq_Nil_conv)
    show ?thesis using a b 1 2 by (simp add: dropWhile_ws_append list_all_iff)
  qed
  then show ?thesis by (simp add: trim_def)
qed

lemma toLowerCase_ws: "list_all is_ws w \<Longrightarrow> toLowerCase w = w"
  by (induction w) (auto simp: toLowerCase_def lower_char_def Let_def dest: is_ws_code)

lemma toLowerCase_append: "toLowerCase (a @ b) = toLowerCase a @ toLowerCase b"
  by (simp add: toLowerCase_def)

lemma truthy_not_nullish: "truthy v \<Longrightarrow> \<not> nullish v"
  by (cases v) (auto simp: nullish_def)

lemma nullish_rates_of: "\<not> nullish (rates_of rd)"
  by (simp add: rates_of_def truthy_not_nullish)

lemma get_nullish: "nullish c \<Longrightarrow> get c k = JUndefined"
  by (auto simp: nullish_def get_def)

lemma qualifies_not_nullish: "qualifies c \<Longrightarrow> \<not> nullish c"
  by (auto simp: qualifies_def get_nullish)

lemma qualifies_iff:
  "qualifies c \<longleftrightarrow>
     truthy (entry_name c) \<and> \<not> nullish (entry_population c) \<and>
     (\<exists>n. normalizeName (entry_name c) = Inr n)"
  by (cases "get c ''name''")
    (auto simp: qualifies_def entry_name_def entry_population_def or_null_def nullish_def
      normalizeName_def split: jsval.splits jsnum.splits)

subsection \<open>One pass of the loop\<close>

lemmas derive1_unfold = derive1_def resolve1_def currency_code1_def skip_entry_def

lemmas derive2_unfold = derive2_def resolve2_def currency_code2_def skip_entry_def

lemma derive1_Inl: "derive1 E rates c d t = Inl e \<Longrightarrow> e = TypeError"
  by (auto simp: derive1_unfold Let_def hasOwnProperty_def normalizeName_def
      split: if_splits sum.splits prod.splits jsval.splits)

lemma derive2_Inl: "derive2 E rates c d t = Inl e \<Longrightarrow> e = TypeError"
  by (auto simp: derive2_unfold Let_def hasOwnProperty_def normalizeName_def
      split: if_splits sum.splits prod.splits jsval.splits option.splits)

lemma resolve1_Inr:
  "\<not> nullish rates \<Longrightarrow> \<exists>xr g d'. resolve1 E rates cc p d = Inr (xr, g, d')"
  by (cases "computeEstimatedGDP1 E p (get rates cc) d")
    (simp add: resolve1_def hasOwnProperty_def)

lemma resolve2_Inr:
  "\<not> nullish rates \<Longrightarrow> \<exists>xr g d'. resolve2 E rates cc p d = Inr (xr, g, d')"
  by (cases "computeEstimatedGDP2 E p (get rates (js_String E cc)) d")
    (simp add: resolve2_def hasOwnProperty_def)

lemma derive1_row_iff:
  assumes "\<not> nullish rates"
  shows "(\<exists>r d'. derive1 E rates c d t = Inr (Some r, d')) \<longleftrightarrow> qualifies c"
proof
  assume "\<exists>r d'. derive1 E rates c d t = Inr (Some r, d')"
  then have "\<not> skip_entry c" and "\<exists>n. normalizeName (entry_name c) = Inr n"
    by (auto simp: derive1_def split: if_splits sum.splits prod.splits)
  then show "qualifies c" by (simp add: qualifies_iff skip_entry_def)
next
  assume q: "qualifies c"
  then obtain n where n: "\<not> skip_entry c" "normalizeName (entry_name c) = Inr n" "\<not> nullish c"
    using qualifies_iff qualifies_not_nullish by (auto simp: skip_entry_def)
  from resolve1_Inr [OF assms] obtain xr g d' where
    "resolve1 E rates (currency_code1 E c) (entry_population c) d = Inr (xr, g, d')" by blast
  with n show "\<exists>r d'. derive1 E rates c d t = Inr (Some r, d')"
    by (simp add: derive1_def)
qed

lemma derive2_row_iff:
  assumes "\<not> nullish rates"
  shows "(\<exists>r d'. derive2 E rates c d t = Inr (Some r, d')) \<longleftrightarrow> qualifies c"
proof
  assume "\<exists>r d'. derive2 E rates c d t = Inr (Some r, d')"
  then have "\<not> skip_entry c" and "\<exists>n. normalizeName (entry_name c) = Inr n"
    by (auto simp: derive2_def split: if_splits sum.splits prod.splits)
  then show "qualifies c" by (simp add: qualifies_iff skip_entry_def)
next
  assume q: "qualifies c"
  then obtain n where n: "\<not> skip_entry c" "normalizeName (entry_name c) = Inr n" "\<not> nullish c"
    using qualifies_iff qualifies_not_nullish by (auto simp: skip_entry_def)
  from resolve2_Inr [OF assms] obtain xr g d' where
    "resolve2 E rates (currency_code2 E c) (entry_population c) d = Inr (xr, g, d')" by blast
  with n show "\<exists>r d'. derive2 E rates c d t = Inr (Some r, d')"
    by (simp add: derive2_def)
qed

lemma skipped_derive1: "skipped c \<Longrightarrow> derive1 E rates c d t = Inr (None, d)"
  by (auto simp: skipped_def derive1_def split: if_splits)

lemma skipped_derive2: "skipped c \<Longrightarrow> derive2 E rates c d t = Inr (None, d)"
  by (auto simp: skipped_def derive2_def split: if_splits)



text \<open>An entry has no currency code when it has no currency list, an empty one, or a
  first currency that is falsy or has no truthy code.\<close>

lemma first_code_None_iff:
  "first_code E c = None \<longleftrightarrow>
     (case get c ''currencies'' of
        JArr [] \<Rightarrow> True
      | JArr (x # xs) \<Rightarrow> (if truthy x then \<not> truthy (get x ''code'') else True)
      | _ \<Rightarrow> True)"
  by (auto simp: first_code_def split: jsval.splits list.splits)



subsection \<open>Sample evaluations\<close>

lemma xyz_upper: "toUpperCase (trim ''xyz'') = ''XYZ''"
  by code_simp

lemma nok_upper: "toUpperCase (trim ''NOK'') = ''NOK''"
  by code_simp

lemma atlantis_lower: "toLowerCase (trim ''Atlantis'') = ''atlantis''"
  by code_simp

lemma bouvet_lower: "toLowerCase (trim ''Bouvet Island'') = ''bouvet island''"
  by code_simp

text \<open>
  C2. Atlantis has the currency code XYZ, which the sample rate table does not list. The
  second implementation derives a null exchange rate and a null estimated GDP, as the
  specification says; the first derives a null exchange rate and the estimated GDP 0,
  the value it starts from and overwrites only when the code is in the table.
\<close>

theorem unmapped_currency_first_implementation:
  "derive1 E (rates_of sample_rates) atlantis d t =
     Inr (Some \<lparr>name = JStr ''Atlantis'', normalized_name = ''atlantis'', capital = JNull,
                region = JNull, population = JNum (Fin 1000), currency_code = JStr ''XYZ'',
                exchange_rate = JNull, estimated_gdp = JNum (Fin 0), flag_url = JNull,
                last_refreshed_at = t\<rparr>, d) \<and>
   derive2 E (rates_of sample_rates) atlantis d t =
     Inr (Some \<lparr>name = JStr ''Atlantis'', normalized_name = ''atlantis'', capital = JNull,
                region = JNull, population = JNum (Fin 1000), currency_code = JStr ''XYZ'',
                exchange_rate = JNull, estimated_gdp = JNull, flag_url = JNull,
                last_refreshed_at = t\<rparr>, d)"
  by (simp add: derive1_unfold derive2_unfold atlantis_def sample_rates_def rates_of_def rates_or_def
      get_def nullish_def entry_name_def entry_population_def or_null_def first_code_def
      hasOwnProperty_def normalizeName_def xyz_upper atlantis_lower)

text \<open>
  C3. Bouvet Island has population 0 and the currency NOK, whose rate is 10. The second
  implementation draws a multiplier and derives 0 * m / 10 = 0, as the specification
  says; the first returns null from \<^verbatim>\<open>computeEstimatedGDP\<close>, whose test \<^verbatim>\<open>!population\<close> takes the
  number 0 for a missing population, and draws no multiplier.
\<close>

theorem zero_population_first_implementation:
  "derive1 E (rates_of sample_rates) bouvet d t =
     Inr (Some \<lparr>name = JStr ''Bouvet Island'', normalized_name = ''bouvet island'',
                capital = JNull, region = JNull, population = JNum (Fin 0),
                currency_code = JStr ''NOK'', exchange_rate = JNum (Fin 10),
                estimated_gdp = JNull, flag_url = JNull, last_refreshed_at = t\<rparr>, d) \<and>
   derive2 E (rates_of sample_rates) bouvet d t =
     Inr (Some \<lparr>name = JStr ''Bouvet Island'', normalized_name = ''bouvet island'',
                capital = JNull, region = JNull, population = JNum (Fin 0),
                currency_code = JStr ''NOK'', exchange_rate = JNum (Fin 10),
                estimated_gdp = JNum (Fin 0), flag_url = JNull, last_refreshed_at = t\<rparr>, Suc d)"
  by (simp add: derive1_unfold derive2_unfold bouvet_def sample_rates_def rates_of_def rates_or_def
      get_def nullish_def entry_name_def entry_population_def or_null_def first_code_def
      hasOwnProperty_def normalizeName_def nok_upper bouvet_lower
      computeEstimatedGDP1_def computeEstimatedGDP2_def)

subsection \<open>The two implementations compared\<close>

lemma randomMultiplier_range:
  "0 \<le> u \<Longrightarrow> u < 1 \<Longrightarrow> 1000 \<le> randomMultiplier u \<and> randomMultiplier u \<le> 2000"
proof -
  assume u: "0 \<le> u" "u < 1"
  then have "0 \<le> \<lfloor>u * 1001\<rfloor>" by simp
  moreover have "\<lfloor>u * 1001\<rfloor> < 1001" using u by (simp add: floor_less_iff)
  ultimately show ?thesis by (simp add: randomMultiplier_def)
qed














subsection \<open>What each implementation derives for a currency code\<close>

lemma derive1_qualifying:
  assumes "qualifies c"
    and "resolve1 E rates (currency_code1 E c) (entry_population c) d = Inr (xr, g, d')"
  shows "\<exists>r. derive1 E rates c d t = Inr (Some r, d') \<and>
           currency_code r = JStr (currency_code1 E c) \<and> exchange_rate r = xr \<and>
           estimated_gdp r = g \<and> population r = entry_population c"
proof -
  from assms(1) obtain n where n: "truthy (entry_name c)" "\<not> nullish (entry_population c)"
    "normalizeName (entry_name c) = Inr n" "\<not> nullish c"
    using qualifies_iff qualifies_not_nullish by blast
  with assms(2) show ?thesis by (simp add: derive1_def skip_entry_def)
qed

lemma derive2_qualifying:
  assumes "qualifies c"
    and "resolve2 E rates (currency_code2 E c) (entry_population c) d = Inr (xr, g, d')"
  shows "\<exists>r. derive2 E rates c d t = Inr (Some r, d') \<and>
           currency_code r = currency_code2 E c \<and> exchange_rate r = xr \<and>
           estimated_gdp r = g \<and> population r = entry_population c"
proof -
  from assms(1) obtain n where n: "truthy (entry_name c)" "\<not> nullish (entry_population c)"
    "normalizeName (entry_name c) = Inr n" "\<not> nullish c"
    using qualifies_iff qualifies_not_nullish by blast
  with assms(2) show ?thesis by (simp add: derive2_def skip_entry_def)
qed

text \<open>A code that the rate table does not list: the second implementation derives null
  and null for every such entry, the first null and 0.\<close>

lemma derive2_unmapped:
  assumes "qualifies c" and "first_code E c = Some s" and "s \<noteq> []"
    and "own_property (rates_of ratesData) s = None"
  shows "\<exists>r. derive2 E (rates_of ratesData) c d t = Inr (Some r, d) \<and>
           currency_code r = JStr s \<and> exchange_rate r = JNull \<and> estimated_gdp r = JNull"
proof -
  have "resolve2 E (rates_of ratesData) (currency_code2 E c) (entry_population c) d =
          Inr (JNull, JNull, d)"
    using assms(2-4) nullish_rates_of [of ratesData]
    by (simp add: resolve2_def currency_code2_def hasOwnProperty_def)
  from derive2_qualifying [OF assms(1) this, of t] assms(2) show ?thesis
    by (auto simp: currency_code2_def)
qed

lemma derive1_unmapped:
  assumes "qualifies c" and "first_code E c = Some s"
    and "own_property (rates_of ratesData) s = None"
  shows "\<exists>r. derive1 E (rates_of ratesData) c d t = Inr (Some r, d) \<and>
           currency_code r = JStr s \<and> exchange_rate r = JNull \<and>
           estimated_gdp r = JNum (Fin 0)"
proof -
  have "resolve1 E (rates_of ratesData) (currency_code1 E c) (entry_population c) d =
          Inr (JNull, JNum (Fin 0), d)"
    using assms(2-3) nullish_rates_of [of ratesData]
    by (simp add: resolve1_def currency_code1_def hasOwnProperty_def)
  from derive1_qualifying [OF assms(1) this, of t] assms(2) show ?thesis
    by (auto simp: currency_code1_def)
qed

text \<open>
  A code whose rate is a number \<open>r\<close> other than 0, a population that is a number \<open>p\<close>, a
  draw in [0, 1): the second implementation derives \<open>p * m / r\<close> for the multiplier \<open>m\<close> of
  its own draw, an integer from 1000 to 2000, and so does the first when \<open>p\<close> is not 0
  and the code is not N/A.
\<close>

lemma derive2_estimated_gdp:
  assumes "qualifies c" and "entry_population c = JNum (Fin p)"
    and "first_code E c = Some s" and "s \<noteq> []"
    and "own_property (rates_of ratesData) s = Some (JNum (Fin r))" and "r \<noteq> 0"
    and "0 \<le> Math_random E d" and "Math_random E d < 1"
  shows "\<exists>m row. derive2 E (rates_of ratesData) c d t = Inr (Some row, Suc d) \<and>
           m = randomMultiplier (Math_random E d) \<and> 1000 \<le> m \<and> m \<le> 2000 \<and>
           exchange_rate row = JNum (Fin r) \<and>
           estimated_gdp row = JNum (Fin (p * of_int m / r))"
proof -
  let ?m = "randomMultiplier (Math_random E d)"
  have g: "get (rates_of ratesData) s = JNum (Fin r)" using assms(5) by (simp add: get_def)
  have "resolve2 E (rates_of ratesData) (currency_code2 E c) (entry_population c) d =
          Inr (JNum (Fin r), JNum (Fin (p * of_int ?m / r)), Suc d)"
    using assms(2-6) g nullish_rates_of [of ratesData]
    by (simp add: resolve2_def currency_code2_def hasOwnProperty_def
        computeEstimatedGDP2_def nullish_def)
  from derive2_qualifying [OF assms(1) this, of t] randomMultiplier_range [OF assms(7,8)]
  show ?thesis by auto
qed

lemma derive1_estimated_gdp:
  assumes "qualifies c" and "entry_population c = JNum (Fin p)" and "p \<noteq> 0"
    and "first_code E c = Some s" and "s \<noteq> ''N/A''"
    and "own_property (rates_of ratesData) s = Some (JNum (Fin r))" and "r \<noteq> 0"
    and "0 \<le> Math_random E d" and "Math_random E d < 1"
  shows "\<exists>m row. derive1 E (rates_of ratesData) c d t = Inr (Some row, Suc d) \<and>
           m = randomMultiplier (Math_random E d) \<and> 1000 \<le> m \<and> m \<le> 2000 \<and>
           exchange_rate row = JNum (Fin r) \<and>
           estimated_gdp row = JNum (Fin (p * of_int m / r))"
proof -
  let ?m = "randomMultiplier (Math_random E d)"
  have g: "get (rates_of ratesData) s = JNum (Fin r)" using assms(6) by (simp add: get_def)
  have "resolve1 E (rates_of ratesData) (currency_code1 E c) (entry_population c) d =
          Inr (JNum (Fin r), JNum (Fin (p * of_int ?m / r)), Suc d)"
    using assms(2-7) g nullish_rates_of [of ratesData]
    by (simp add: resolve1_def currency_code1_def hasOwnProperty_def computeEstimatedGDP1_def)
  from derive1_qualifying [OF assms(1) this, of t] randomMultiplier_range [OF assms(8,9)]
  show ?thesis by auto
qed

section \<open>Properties of the refresh handler\<close>

lemma upsert_loop1_count:
  "\<not> nullish rates \<Longrightarrow> upsert_loop1 E rates cs d k tbl = Inr (d', k', tbl') \<Longrightarrow>
     k' = k + length (filter qualifies cs) \<and> (\<forall>j. k \<le> j \<and> j < k' \<longrightarrow> db_execute E j)"
proof (induction cs arbitrary: d k tbl)
  case Nil
  then show ?case by auto
next
  case (Cons c cs)
  show ?case
  proof (cases "derive1 E rates c d (Date_now E k)")
    case (Inl e)
    with Cons.prems show ?thesis by simp
  next
    case (Inr p)
    obtain ro d1 where p: "p = (ro, d1)" by (cases p)
    show ?thesis
    proof (cases ro)
      case None
      with Inr p have "\<not> qualifies c"
        using derive1_row_iff [OF Cons.prems(1), of E c d "Date_now E k"] by auto
      moreover from None Inr p Cons.prems
      have "upsert_loop1 E rates cs d1 k tbl = Inr (d', k', tbl')"
        by simp
      ultimately show ?thesis using Cons.IH [OF Cons.prems(1)] by simp
    next
      case (Some r)
      with Inr p have q: "qualifies c"
        using derive1_row_iff [OF Cons.prems(1), of E c d "Date_now E k"] by auto
      from Some Inr p Cons.prems have ex: "db_execute E k"
        by (simp split: if_splits)
      with Some Inr p Cons.prems
      have "upsert_loop1 E rates cs d1 (Suc k) (upsert r tbl) = Inr (d', k', tbl')"
        by simp
      from Cons.IH [OF Cons.prems(1) this] q ex show ?thesis
        by (auto simp: le_Suc_eq less_Suc_eq_le dest: le_neq_implies_less)
    qed
  qed
qed

lemma upsert_loop2_count:
  "\<not> nullish rates \<Longrightarrow> upsert_loop2 E rates cs d k tbl = Inr (d', k', tbl') \<Longrightarrow>
     k' = k + length (filter qualifies cs) \<and> (\<forall>j. k \<le> j \<and> j < k' \<longrightarrow> db_execute E j)"
proof (induction cs arbitrary: d k tbl)
  case Nil
  then show ?case by auto
next
  case (Cons c cs)
  show ?case
  proof (cases "derive2 E rates c d (Date_now E k)")
    case (Inl e)
    with Cons.prems show ?thesis by simp
  next
    case (Inr p)
    obtain ro d1 where p: "p = (ro, d1)" by (cases p)
    show ?thesis
    proof (cases ro)
      case None
      with Inr p have "\<not> qualifies c"
        using derive2_row_iff [OF Cons.prems(1), of E c d "Date_now E k"] by auto
      moreover from None Inr p Cons.prems
      have "upsert_loop2 E rates cs d1 k tbl = Inr (d', k', tbl')"
        by simp
      ultimately show ?thesis using Cons.IH [OF Cons.prems(1)] by simp
    next
      case (Some r)
      with Inr p have q: "qualifies c"
        using derive2_row_iff [OF Cons.prems(1), of E c d "Date_now E k"] by auto
      from Some Inr p Cons.prems have ex: "db_execute E k"
        by (simp split: if_splits)
      with Some Inr p Cons.prems
      have "upsert_loop2 E rates cs d1 (Suc k) (upsert r tbl) = Inr (d', k', tbl')"
        by simp
      from Cons.IH [OF Cons.prems(1) this] q ex show ?thesis
        by (auto simp: le_Suc_eq less_Suc_eq_le dest: le_neq_implies_less)
    qed
  qed
qed

lemma upsert_loop1_Inl:
  "upsert_loop1 E rates cs d k tbl = Inl e \<Longrightarrow> e = TypeError \<or> e = DbError"
  by (induction cs arbitrary: d k tbl)
    (auto split: sum.splits option.splits if_splits dest: derive1_Inl)

lemma transaction1_Inl:
  "transaction1 E rates cs D = Inl e \<Longrightarrow> e = TypeError \<or> e = DbError"
  by (auto simp: transaction1_def split: if_splits sum.splits dest: upsert_loop1_Inl)

lemma transaction1_Inr:
  assumes "\<not> nullish rates" and "transaction1 E rates cs D = Inr (D', ts)"
  shows "db_commit E \<and> (\<forall>j \<le> length (filter qualifies cs). db_execute E j)"
proof -
  from assms(2) obtain d k tbl where
    l: "upsert_loop1 E rates cs 0 0 (countries D) = Inr (d, k, tbl)"
    and m: "db_execute E k" and c: "db_commit E"
    by (auto simp: transaction1_def split: if_splits sum.splits)
  from upsert_loop1_count [OF assms(1) l]
  have "k = length (filter qualifies cs)" "\<forall>j. j < k \<longrightarrow> db_execute E j" by auto
  with m c show ?thesis by (auto simp: le_less)
qed

lemma transaction2_Inr:
  assumes "\<not> nullish rates" and "transaction2 E rates cs D = Inr (D', ts)"
  shows "db_commit E \<and> (\<forall>j \<le> length (filter qualifies cs). db_execute E j)"
proof -
  from assms(2) obtain d k tbl where
    l: "upsert_loop2 E rates cs 0 0 (countries D) = Inr (d, k, tbl)"
    and m: "db_execute E k" and c: "db_commit E"
    by (auto simp: transaction2_def split: if_splits sum.splits)
  from upsert_loop2_count [OF assms(1) l]
  have "k = length (filter qualifies cs)" "\<forall>j. j < k \<longrightarrow> db_execute E j" by auto
  with m c show ?thesis by (auto simp: le_less)
qed

lemma refresh_catch_500:
  "e = TypeError \<or> e = DbError \<Longrightarrow> refresh_catch e = jsonError 500 ''Internal server error'' None"
  by auto

lemma guard_set_cleared: "\<not> refreshInProgress S \<Longrightarrow> S\<lparr>refreshInProgress := False\<rparr> = S"
  by (cases S) simp

text \<open>
  C1. When both fetches have succeeded and a statement of the transaction fails (one of
  the upserts of the qualifying entries or the metadata write, statement \<open>j\<close> of the
  connection) or the commit fails, both handlers answer 500 and leave the server as it
  was before the request: no row and no metadata value of the store has changed, and the
  flag is clear again.
\<close>

theorem refresh_storage_failure_rolls_back:
  assumes idle: "\<not> refreshInProgress S"
    and fetched: "fetch_stage E = Inr (countriesData, ratesData)"
    and fails: "(j \<le> length (filter qualifies (elements countriesData)) \<and> \<not> db_execute E j) \<or>
                \<not> db_commit E"
  shows "refresh1 E S = (S, jsonError 500 ''Internal server error'' None) \<and>
         refresh2 E S = (S, jsonError 500 ''Internal server error'' None)"
proof -
  let ?S = "S\<lparr>refreshInProgress := True\<rparr>"
  have s: "store ?S = store S" by simp
  have c: "?S\<lparr>refreshInProgress := False\<rparr> = S" using idle by (cases S) simp
  have n: "\<not> nullish (rates_of ratesData)" by (rule nullish_rates_of)
  have 1: "\<exists>e. transaction1 E (rates_of ratesData) (elements countriesData) (store S) = Inl e"
    using transaction1_Inr [OF n, of E "elements countriesData" "store S"] fails
    by (cases "transaction1 E (rates_of ratesData) (elements countriesData) (store S)") auto
  have 2: "\<exists>e. transaction2 E (rates_of ratesData) (elements countriesData) (store S) = Inl e"
    using transaction2_Inr [OF n, of E "elements countriesData" "store S"] fails
    by (cases "transaction2 E (rates_of ratesData) (elements countriesData) (store S)") auto
  from 1 obtain e where e: "transaction1 E (rates_of ratesData) (elements countriesData) (store S) = Inl e"
    by blast
  then have "refresh_catch e = jsonError 500 ''Internal server error'' None"
    using transaction1_Inl [OF e] by (rule_tac refresh_catch_500)
  with e have r1: "refresh1 E S = (S, jsonError 500 ''Internal server error'' None)"
    using idle fetched c
    by (simp add: refresh1_def refresh_enter_def refresh_run1_def)
  from 2 have r2: "refresh2 E S = (S, jsonError 500 ''Internal server error'' None)"
    using idle fetched c
    by (auto simp: refresh2_def refresh_enter_def refresh_run2_def)
  from r1 r2 show ?thesis ..
qed

theorem refresh_storage_failure_rolls_back_witness:
  "\<not> refreshInProgress one_row_server \<and>
   fetch_stage failing_env = Inr (JArr [nigeria, atlantis], sample_rates) \<and>
   1 \<le> length (filter qualifies (elements (JArr [nigeria, atlantis]))) \<and>
   \<not> db_execute failing_env 1 \<and>
   refresh1 failing_env one_row_server =
     (one_row_server, jsonError 500 ''Internal server error'' None) \<and>
   refresh2 failing_env one_row_server =
     (one_row_server, jsonError 500 ''Internal server error'' None)"
proof -
  have a: "\<not> refreshInProgress one_row_server" by code_simp
  have b: "fetch_stage failing_env = Inr (JArr [nigeria, atlantis], sample_rates)" by code_simp
  have c: "1 \<le> length (filter qualifies (elements (JArr [nigeria, atlantis])))" by code_simp
  have d: "\<not> db_execute failing_env 1" by code_simp
  from c d have
    "(1 \<le> length (filter qualifies (elements (JArr [nigeria, atlantis]))) \<and> \<not> db_execute failing_env 1) \<or>
     \<not> db_commit failing_env" by simp
  from refresh_storage_failure_rolls_back [OF a b this] a b c d show ?thesis by simp
qed

lemma fetch_stage_Inl:
  "fetch_stage E = Inl err \<Longrightarrow>
     (err = Api ''Countries API'' \<and> countries_failed E) \<or>
     (err = Api ''Exchange Rates API'' \<and> rates_failed E)"
  by (auto simp: fetch_stage_def countries_failed_def rates_failed_def
      split: sum.splits if_splits)

lemma fetch_stage_failed:
  "countries_failed E \<or> rates_failed E \<Longrightarrow> \<exists>err. fetch_stage E = Inl err"
  by (auto simp: fetch_stage_def countries_failed_def rates_failed_def
      split: sum.splits if_splits)

text \<open>The failures of a fetch: the abort by the timer, a network failure, a status
  outside 200..299, a body that is not JSON.\<close>

lemma rates_failed_iff:
  "rates_failed E \<longleftrightarrow>
     fetch_rates E = Aborted \<or> fetch_rates E = Unreachable \<or>
     (\<exists>st b. fetch_rates E = Responded st b \<and> (st < 200 \<or> 299 < st \<or> b = None))"
  by (cases "fetch_rates E") (auto simp: rates_failed_def split: option.splits)

lemma countries_failed_iff:
  "countries_failed E \<longleftrightarrow>
     fetch_countries E = Aborted \<or> fetch_countries E = Unreachable \<or>
     (\<exists>st b. fetch_countries E = Responded st b \<and>
        (st < 200 \<or> 299 < st \<or> (case b of None \<Rightarrow> True | Some v \<Rightarrow> \<not> isArray v)))"
  by (cases "fetch_countries E") (auto simp: countries_failed_def split: option.splits)

text \<open>
  C5. When a fetch fails (it is aborted by the timer, the network fails, the status is
  outside 200..299 or the body does not parse) or the catalog is not an array, both
  handlers answer 503 with the details naming an API that failed, the Countries API or
  the Exchange Rates API, and leave the server as it was: nothing is written.
\<close>

theorem external_failure_503:
  assumes idle: "\<not> refreshInProgress S"
    and failed: "countries_failed E \<or> rates_failed E"
  shows "\<exists>a. refresh1 E S =
           (S, jsonError 503 ''External data source unavailable''
                 (Some (''Could not fetch data from '' @ a))) \<and>
         refresh2 E S =
           (S, jsonError 503 ''External data source unavailable''
                 (Some (''Could not fetch data from '' @ a))) \<and>
         ((a = ''Countries API'' \<and> countries_failed E) \<or>
          (a = ''Exchange Rates API'' \<and> rates_failed E))"
proof -
  from fetch_stage_failed [OF failed] obtain err where err: "fetch_stage E = Inl err" ..
  have c: "S\<lparr>refreshInProgress := True\<rparr>\<lparr>refreshInProgress := False\<rparr> = S"
    using idle by (cases S) simp
  from fetch_stage_Inl [OF err] show ?thesis
    using err idle c
    by (auto simp: refresh1_def refresh2_def refresh_enter_def refresh_run1_def refresh_run2_def)
qed

theorem external_failure_503_witness:
  "\<not> refreshInProgress one_row_server \<and> fetch_rates timeout_env = Aborted \<and>
   rates_failed timeout_env \<and> \<not> countries_failed timeout_env \<and>
   refresh1 timeout_env one_row_server =
     (one_row_server, jsonError 503 ''External data source unavailable''
        (Some ''Could not fetch data from Exchange Rates API'')) \<and>
   refresh2 timeout_env one_row_server =
     (one_row_server, jsonError 503 ''External data source unavailable''
        (Some ''Could not fetch data from Exchange Rates API''))"
proof -
  have a: "\<not> refreshInProgress one_row_server" by code_simp
  have b: "rates_failed timeout_env" by code_simp
  have c: "\<not> countries_failed timeout_env" by code_simp
  have d: "fetch_rates timeout_env = Aborted" by code_simp
  from b have "countries_failed timeout_env \<or> rates_failed timeout_env" ..
  from external_failure_503 [OF a this] a b c d show ?thesis by auto
qed








lemma upsert_loop1_skipped:
  "list_all skipped cs \<Longrightarrow> upsert_loop1 E rates cs d k tbl = Inr (d, k, tbl)"
  by (induction cs) (simp_all add: skipped_derive1)

lemma upsert_loop2_skipped:
  "list_all skipped cs \<Longrightarrow> upsert_loop2 E rates cs d k tbl = Inr (d, k, tbl)"
  by (induction cs) (simp_all add: skipped_derive2)

lemma map_of_meta_upsert: "map_of (meta_upsert k v kvs) k = Some v"
  by (induction kvs) auto

text \<open>
  C8, as the code has it. The store holds one row from an earlier cycle and the catalog
  has one entry, skipped for its missing population. The cycle succeeds and reports
  \<open>total_countries: 1\<close>, the count of the table, not 0.
\<close>

theorem zero_qualifying_total_counts_stored_rows:
  "list_all skipped (elements (JArr [nameless])) \<and>
   fetch_stage skipping_env = Inr (JArr [nameless], sample_rates) \<and>
   snd (refresh1 skipping_env one_row_server) =
     Response 200 (RefreshBody ''Refresh successful'' 1 1000) \<and>
   snd (refresh2 skipping_env one_row_server) =
     Response 200 (RefreshBody ''Refresh successful'' 1 1000)"
  by code_simp

text \<open>
  C8, amended. A successful cycle all of whose entries are skipped answers 200 with
  \<open>total_countries\<close> the number of rows the store already held (0 for an empty store),
  changes no row, and sets the metadata timestamp to the time of the cycle.
\<close>

theorem zero_qualifying_refresh:
  assumes idle: "\<not> refreshInProgress S"
    and fetched: "fetch_stage E = Inr (countriesData, ratesData)"
    and none: "list_all skipped (elements countriesData)"
    and db: "db_getConnection E" "db_beginTransaction E" "db_execute E 0" "db_commit E"
      "db_count_query E" "db_top_query E"
  shows "\<exists>S1 S2.
      refresh1 E S = (S1, Response 200 (RefreshBody ''Refresh successful''
                            (length (countries (store S))) (Date_now E 0))) \<and>
      refresh2 E S = (S2, Response 200 (RefreshBody ''Refresh successful''
                            (length (countries (store S))) (Date_now E 0))) \<and>
      countries (store S1) = countries (store S) \<and>
      countries (store S2) = countries (store S) \<and>
      map_of (meta (store S1)) ''last_refreshed_at'' = Some (Date_now E 0) \<and>
      map_of (meta (store S2)) ''last_refreshed_at'' = Some (Date_now E 0) \<and>
      \<not> refreshInProgress S1 \<and> \<not> refreshInProgress S2"
  using assms
  by (simp add: refresh1_def refresh2_def refresh_enter_def refresh_run1_def refresh_run2_def
      transaction1_def transaction2_def upsert_loop1_skipped upsert_loop2_skipped
      after_commit_def map_of_meta_upsert)

theorem zero_qualifying_refresh_witness:
  "\<not> refreshInProgress one_row_server \<and>
   list_all skipped (elements (JArr [nameless])) \<and>
   (\<exists>S1. refresh1 skipping_env one_row_server =
            (S1, Response 200 (RefreshBody ''Refresh successful'' 1 1000)) \<and>
          countries (store S1) = [nigeria_row] \<and>
          map_of (meta (store S1)) ''last_refreshed_at'' = Some 1000)"
proof -
  have a: "\<not> refreshInProgress one_row_server" by code_simp
  have b: "fetch_stage skipping_env = Inr (JArr [nameless], sample_rates)" by code_simp
  have c: "list_all skipped (elements (JArr [nameless]))" by code_simp
  have d: "db_getConnection skipping_env" "db_beginTransaction skipping_env"
    "db_execute skipping_env 0" "db_commit skipping_env" "db_count_query skipping_env"
    "db_top_query skipping_env" by code_simp+
  have e: "length (countries (store one_row_server)) = 1" "Date_now skipping_env 0 = 1000"
    "countries (store one_row_server) = [nigeria_row]"
    by code_simp+
  from zero_qualifying_refresh [OF a b c d] a c e show ?thesis by auto
qed















lemma store_ok_empty: "store_ok \<lparr>countries = [], meta = m\<rparr>"
  by (simp add: store_ok_def)



text \<open>A name in another letter case, padded with white space, trims and lower-cases to
  the same string.\<close>

lemma padded_variant:
  assumes "list_all is_ws w1" "list_all is_ws w2" "toLowerCase u = toLowerCase s"
  shows "trim (toLowerCase (w1 @ u @ w2)) = trim (toLowerCase s)"
proof -
  have "trim (toLowerCase (w1 @ u @ w2)) = trim (w1 @ toLowerCase u @ w2)"
    using assms(1,2) by (simp add: toLowerCase_append toLowerCase_ws)
  also have "\<dots> = trim (toLowerCase u)" using assms(1,2) by (rule trim_pad)
  finally show ?thesis using assms(3) by simp
qed



end
